theory Spec2Isabelle
  imports Main "HOL-Library.AList" "HOL-Library.Sublist" "HOL-Library.Monad_Syntax"
begin

section \<open>Browser environment shared by the pages\<close>

text \<open>
  The pages keep their durable state in the browser's local storage, a dictionary from
  string keys to string values. What else a handler does to the browser (toast
  notifications, router navigations, timers) is recorded, in the order in which it
  happens, in a list of effects.
\<close>

type_synonym storage = "string \<rightharpoonup> string"

definition getItem :: "storage \<Rightarrow> string \<Rightarrow> string option" where
  "getItem ls k = ls k"

definition setItem :: "string \<Rightarrow> string \<Rightarrow> storage \<Rightarrow> storage" where
  "setItem k v ls = ls(k \<mapsto> v)"

definition removeItem :: "string \<Rightarrow> storage \<Rightarrow> storage" where
  "removeItem k ls = ls(k := None)"

text \<open>
  JavaScript truthiness of a value that is a string, \<open>null\<close> or \<open>undefined\<close>:
  only a non-empty string is truthy. \<open>x || d\<close> on such a value yields \<open>d\<close> unless
  \<open>x\<close> is truthy.
\<close>

definition truthy :: "string option \<Rightarrow> bool" where
  "truthy x = (case x of None \<Rightarrow> False | Some s \<Rightarrow> s \<noteq> [])"

definition or_else :: "string option \<Rightarrow> string \<Rightarrow> string" where
  "or_else x d = (case x of None \<Rightarrow> d | Some s \<Rightarrow> if s = [] then d else s)"

text \<open>\<open>s.includes(sub)\<close>: \<open>sub\<close> occurs in \<open>s\<close> as a contiguous run of characters.\<close>

fun str_includes :: "string \<Rightarrow> string \<Rightarrow> bool" where
  "str_includes [] sub = (sub = [])"
| "str_includes (c # cs) sub = (prefix sub (c # cs) \<or> str_includes cs sub)"

text \<open>\<open>xs.join(sep)\<close> on an array of strings.\<close>

fun join :: "string \<Rightarrow> string list \<Rightarrow> string" where
  "join sep [] = []"
| "join sep [x] = x"
| "join sep (x # y # ys) = x @ sep @ join sep (y # ys)"

text \<open>
  \<open>String.prototype.trim\<close>, \<open>toUpperCase\<close> and \<open>toLowerCase\<close> belong to the
  platform and work on all of Unicode: \<open>trim\<close> strips every white space and line
  terminator character, the case conversions follow the Unicode case mappings. The
  handlers that call them take the three methods as a parameter, so that what is proved
  of a handler holds whatever the methods do to a string.
\<close>

record js_strings =
  trim :: "string \<Rightarrow> string"
  toUpperCase :: "string \<Rightarrow> string"
  toLowerCase :: "string \<Rightarrow> string"

text \<open>A natural number in a template string: its decimal digits.\<close>

definition digit_char :: "nat \<Rightarrow> char" where
  "digit_char d = char_of (of_char (CHR ''0'') + d)"

fun decimal :: "nat \<Rightarrow> string" where
  "decimal n = (if n div 10 = 0 then [digit_char n] else decimal (n div 10) @ [digit_char (n mod 10)])"

declare decimal.simps [simp del]

text \<open>
  The values \<open>JSON.parse\<close> returns, and \<open>undefined\<close> for a property that is not
  there. Numbers are integers (the timestamps of \<open>Date.now()\<close>); an object is the list
  of its properties. \<open>JSON.parse\<close> itself belongs to the platform: the functions that
  call it take it as a parameter that returns \<open>None\<close> where it throws a
  \<open>SyntaxError\<close>.
\<close>

datatype js_value =
    JUndefined
  | JNull
  | JBool bool
  | JNum int
  | JStr string
  | JArr "js_value list"
  | JObj "(string \<times> js_value) list"

text \<open>
  \<open>v.k\<close> for the property names the pages read (\<open>status\<close>, \<open>role\<close>,
  \<open>timestamp\<close>, \<open>message\<close>): a \<open>TypeError\<close> (\<open>None\<close>) on \<open>null\<close> and
  \<open>undefined\<close>, the property's value on an object that has it, \<open>undefined\<close>
  otherwise.
\<close>

fun get_prop :: "js_value \<Rightarrow> string \<Rightarrow> js_value option" where
  "get_prop JUndefined k = None"
| "get_prop JNull k = None"
| "get_prop (JObj props) k =
     Some (case map_of props k of None \<Rightarrow> JUndefined | Some v \<Rightarrow> v)"
| "get_prop v k = Some JUndefined"



text \<open>
  The body of an error response of the backend, as far as the pages read it, and the error
  object with which the HTTP client rejects a call: \<open>response\<close> is absent when no
  response arrived (network failure, timeout).
\<close>

record error_data =
  data_error :: "string option"
  data_hint :: "string option"
  data_retryAfter :: "nat option"
  data_closedPositions :: "string list"

record http_response =
  resp_status :: nat
  resp_data :: error_data

record axios_error =
  err_response :: "http_response option"
  err_message :: string

definition response_status :: "axios_error \<Rightarrow> nat option" where
  "response_status err = map_option resp_status (err_response err)"

definition response_error :: "axios_error \<Rightarrow> string option" where
  "response_error err = Option.bind (err_response err) (\<lambda>r. data_error (resp_data r))"

definition response_hint :: "axios_error \<Rightarrow> string option" where
  "response_hint err = Option.bind (err_response err) (\<lambda>r. data_hint (resp_data r))"

definition response_retryAfter :: "axios_error \<Rightarrow> nat option" where
  "response_retryAfter err = Option.bind (err_response err) (\<lambda>r. data_retryAfter (resp_data r))"

datatype nav_state = NoState | RegNoState string | MessageState string

datatype timer_action =
    SetLocationHref string
  | NavigateTo string nav_state
  | DismissWelcome
  | FocusOtpInput

datatype effect =
    ToastError string
  | ToastSuccess string
  | Navigate string nav_state
  | SetTimeout nat timer_action

record browser =
  localStorage :: storage
  effects :: "effect list"

text \<open>
  A handler that awaits a call to the backend is split where it awaits: the first half
  returns the request it sends (if it gets that far), the second half takes the outcome of
  the call. \<open>perform\<close> runs a sequence of browser actions in the order written.
\<close>

datatype api_request =
    Login string string
  | RequestOTP string
  | GetBallot string
  | CastVote string "(string \<times> string) list"

definition perform :: "('s \<Rightarrow> 's) list \<Rightarrow> 's \<Rightarrow> 's" where
  "perform actions s = fold (\<lambda>act. act) actions s"

definition emit :: "effect \<Rightarrow> browser \<Rightarrow> browser" where
  "emit e b = b\<lparr>effects := effects b @ [e]\<rparr>"

definition storage_remove :: "string \<Rightarrow> browser \<Rightarrow> browser" where
  "storage_remove k b = b\<lparr>localStorage := removeItem k (localStorage b)\<rparr>"

definition storage_set :: "string \<Rightarrow> string \<Rightarrow> browser \<Rightarrow> browser" where
  "storage_set k v b = b\<lparr>localStorage := setItem k v (localStorage b)\<rparr>"

section \<open>The API client's response interceptor\<close>

text \<open>
  Every call to the backend goes through one HTTP client. The error handler of
  \<open>api.interceptors.response\<close> returns the error with which the call is rejected;
  \<open>new Error(msg)\<close> is an error without a response. The \<open>console.error\<close> log at
  its start changes nothing and is left out.
\<close>

definition response_error_interceptor :: "axios_error \<Rightarrow> browser \<Rightarrow> axios_error \<times> browser" where
  "response_error_interceptor err b =
     (if response_status err = Some 401 then
        let errorMessage = or_else (response_error err) [];
            b1 = perform [storage_remove ''token'', storage_remove ''user''] b
        in if str_includes errorMessage ''Invalid or inactive user'' \<or>
              str_includes errorMessage ''Invalid token'' \<or>
              str_includes errorMessage ''Token expired''
           then (\<lparr>err_response = None,
                   err_message = ''Your session has expired. Please log in again.''\<rparr>,
                 emit (SetTimeout 100 (SetLocationHref ''/login'')) b1)
           else if str_includes errorMessage ''inactive'' \<or> str_includes errorMessage ''deactivated''
           then (err, b1)
           else (err, emit (SetTimeout 100 (SetLocationHref ''/login'')) b1)
      else (err, b))"

section \<open>The ballot casting wizard (VotingPage)\<close>

record Position =
  pos_id :: string
  pos_name :: string
  seats :: nat
  votingOpens :: string
  votingCloses :: string

record Candidate =
  cand_id :: string
  cand_name :: string
  program :: string
  photoUrl :: "string option"
  cand_status :: string
  cand_position_id :: string
  cand_position_name :: string

record BallotData =
  positions :: "Position list"
  candidates :: "Candidate list"

text \<open>
  The component state. \<open>votes\<close> is the JavaScript object
  \<open>{ [positionId]: candidateId }\<close>, kept as an association list in insertion order:
  \<open>{...votes, [p]: c}\<close> is \<open>AList.update p c\<close> (an existing key keeps its place, a new
  one goes last), \<open>delete votes[p]\<close> is \<open>AList.delete p\<close>, \<open>votes[p]\<close> is
  \<open>map_of votes p\<close> and \<open>Object.keys(votes)\<close> is \<open>map fst votes\<close> (JavaScript
  lists keys that are array indices first; position identifiers are not). The progress
  percentage of \<open>calculateProgress\<close> is only drawn and is left out.
\<close>

record VotingPage =
  ballotToken :: string
  loading :: bool
  submitting :: bool
  ballotData :: "BallotData option"
  votes :: "(string \<times> string) list"
  currentStep :: nat

definition initialVotingPage :: VotingPage where
  "initialVotingPage =
     \<lparr>ballotToken = [], loading = True, submitting = False, ballotData = None,
      votes = [], currentStep = 0\<rparr>"

definition handleVoteChange :: "string \<Rightarrow> string \<Rightarrow> VotingPage \<Rightarrow> VotingPage" where
  "handleVoteChange positionId candidateId st =
     (if map_of (votes st) positionId = Some candidateId
      then st\<lparr>votes := AList.delete positionId (votes st)\<rparr>
      else st\<lparr>votes := AList.update positionId candidateId (votes st)\<rparr>)"

definition Object_keys :: "(string \<times> string) list \<Rightarrow> string list" where
  "Object_keys obj = map fst obj"

text \<open>\<open>!!votes[positionId]\<close>: the position has a recorded, non-empty candidate id.\<close>

definition has_vote :: "VotingPage \<Rightarrow> string \<Rightarrow> bool" where
  "has_vote st positionId = truthy (map_of (votes st) positionId)"

definition votedCount :: "VotingPage \<Rightarrow> nat" where
  "votedCount st = length (Object_keys (votes st))"

definition totalPositions :: "BallotData \<Rightarrow> nat" where
  "totalPositions bd = length (positions bd)"

text \<open>\<open>ballotData.positions[currentStep]\<close>, \<open>undefined\<close> out of range.\<close>

definition currentPosition :: "BallotData \<Rightarrow> VotingPage \<Rightarrow> Position option" where
  "currentPosition bd st =
     (if currentStep st < length (positions bd) then Some (positions bd ! currentStep st)
      else None)"

definition handleNext :: "BallotData \<Rightarrow> VotingPage \<Rightarrow> VotingPage" where
  "handleNext bd st =
     (if int (currentStep st) < int (length (positions bd)) - 1
      then st\<lparr>currentStep := currentStep st + 1\<rparr> else st)"

definition handlePrevious :: "VotingPage \<Rightarrow> VotingPage" where
  "handlePrevious st =
     (if currentStep st > 0 then st\<lparr>currentStep := currentStep st - 1\<rparr> else st)"

definition positionCandidates :: "BallotData \<Rightarrow> VotingPage \<Rightarrow> Candidate list" where
  "positionCandidates bd st =
     filter (\<lambda>c. Some (cand_position_id c) = map_option pos_id (currentPosition bd st))
       (candidates bd)"

subsection \<open>Mounting the page and loading the ballot\<close>

record ballot_response =
  resp_positions :: "Position list option"
  resp_candidates :: "Candidate list option"

datatype ballot_outcome = BallotResolved ballot_response | BallotRejected axios_error

definition or_empty :: "'a list option \<Rightarrow> 'a list" where
  "or_empty xs = (case xs of None \<Rightarrow> [] | Some ys \<Rightarrow> ys)"

text \<open>
  The mount effect: the token comes from the navigation state or, failing that, from local
  storage; without one the page leaves for \<open>/verify\<close>, with one it starts loading the
  ballot.
\<close>

definition mountVotingPage ::
  "string option \<Rightarrow> VotingPage \<times> browser \<Rightarrow> (VotingPage \<times> browser) \<times> api_request option" where
  "mountVotingPage stateToken s =
     (case s of (st, b) \<Rightarrow>
        let token = (if truthy stateToken then stateToken
                     else getItem (localStorage b) ''ballotToken'')
        in if \<not> truthy token
           then ((st, perform
                    [emit (ToastError ''No ballot token found. Please verify your identity first.''),
                     emit (Navigate ''/verify'' NoState)] b), None)
           else ((st\<lparr>ballotToken := the token, loading := True\<rparr>, b),
                 Some (GetBallot (the token))))"

definition loadBallot_settled ::
  "ballot_outcome \<Rightarrow> VotingPage \<times> browser \<Rightarrow> VotingPage \<times> browser" where
  "loadBallot_settled outcome s =
     (case s of (st, b) \<Rightarrow>
        (case outcome of
           BallotResolved r \<Rightarrow>
             (st\<lparr>ballotData := Some \<lparr>positions = or_empty (resp_positions r),
                                     candidates = or_empty (resp_candidates r)\<rparr>,
                 loading := False\<rparr>,
              if (case resp_positions r of None \<Rightarrow> False | Some ps \<Rightarrow> length ps > 0) \<and>
                 (case resp_candidates r of None \<Rightarrow> False | Some cs \<Rightarrow> length cs = 0)
              then emit (ToastError ''No approved candidates available for voting yet.'') b
              else b)
         | BallotRejected err \<Rightarrow>
             (st\<lparr>loading := False\<rparr>,
              if response_status err = Some 401 \<or> response_status err = Some 400
              then perform
                     [emit (ToastError ''Invalid or expired ballot token. Please verify again.''),
                      storage_remove ''ballotToken'',
                      emit (Navigate ''/verify'' NoState)] b
              else emit (ToastError ''Failed to load ballot'') b)))"

subsection \<open>Submitting\<close>

datatype cast_outcome = CastResolved | CastRejected axios_error

definition missingPositions :: "BallotData \<Rightarrow> VotingPage \<Rightarrow> Position list" where
  "missingPositions bd st = filter (\<lambda>pos. \<not> has_vote st (pos_id pos)) (positions bd)"

text \<open>
  \<open>handleSubmit\<close> up to its \<open>await\<close>. \<open>confirmed\<close> is the answer the user gives to the
  browser's confirmation dialog; the dialog is only reached when no position is missing.
\<close>

definition handleSubmit_begin ::
  "bool \<Rightarrow> VotingPage \<times> browser \<Rightarrow> (VotingPage \<times> browser) \<times> api_request option" where
  "handleSubmit_begin confirmed s =
     (case s of (st, b) \<Rightarrow>
        (case ballotData st of
           None \<Rightarrow> ((st, b), None)
         | Some bd \<Rightarrow>
             let missing = missingPositions bd st in
             if length missing > 0
             then ((st, emit (ToastError (''Please vote for: '' @ join '', '' (map pos_name missing))) b),
                   None)
             else if \<not> confirmed then ((st, b), None)
             else ((st\<lparr>submitting := True\<rparr>, b), Some (CastVote (ballotToken st) (votes st)))))"

text \<open>\<open>handleSubmit\<close> after the \<open>await\<close>: the \<open>try\<close> continuation, the \<open>catch\<close>
  block and the \<open>finally\<close> block.\<close>

definition handleSubmit_settled ::
  "cast_outcome \<Rightarrow> VotingPage \<times> browser \<Rightarrow> VotingPage \<times> browser" where
  "handleSubmit_settled outcome s =
     (case s of (st, b) \<Rightarrow>
        (st\<lparr>submitting := False\<rparr>,
         (case outcome of
            CastResolved \<Rightarrow>
              perform
                [emit (ToastSuccess ''Vote cast successfully! Thank you for voting.''),
                 storage_remove ''ballotToken'',
                 emit (SetTimeout 2000
                   (NavigateTo ''/verify'' (MessageState ''Your vote has been recorded. Thank you!'')))] b
          | CastRejected err \<Rightarrow>
              if response_status err = Some 400 then
                (case response_error err of
                   None \<Rightarrow> emit (ToastError ''Failed to cast vote'') b
                 | Some msg \<Rightarrow>
                     if str_includes msg ''already used'' then
                       perform
                         [emit (ToastError ''This ballot has already been used. You can only vote once.''),
                          storage_remove ''ballotToken'',
                          emit (Navigate ''/verify'' NoState)] b
                     else if str_includes msg ''not open for voting'' then
                       (let closedPositions =
                              (case err_response err of None \<Rightarrow> []
                               | Some r \<Rightarrow> data_closedPositions (resp_data r))
                        in if length closedPositions > 0
                           then emit (ToastError (''Voting window closed for: '' @
                                  join '', '' closedPositions @
                                  ''. Contact administrator to extend voting time.'')) b
                           else emit (ToastError (msg @ ''. '' @ or_else (response_hint err) [])) b)
                     else emit (ToastError (or_else (Some msg) ''Failed to cast vote'')) b)
              else emit (ToastError (or_else (response_error err) ''Failed to cast vote'')) b)))"

text \<open>
  The whole handler, when nothing else happens while the call is in flight. \<open>castVote\<close>
  is the backend; the call goes through the API client, so a rejection reaches the handler
  through the response interceptor.
\<close>

definition handleSubmit ::
  "bool \<Rightarrow> (string \<Rightarrow> (string \<times> string) list \<Rightarrow> cast_outcome) \<Rightarrow>
     VotingPage \<times> browser \<Rightarrow> VotingPage \<times> browser" where
  "handleSubmit confirmed castVote s =
     (case handleSubmit_begin confirmed s of
        ((st1, b1), Some (CastVote token voteData)) \<Rightarrow>
          (case castVote token voteData of
             CastResolved \<Rightarrow> handleSubmit_settled CastResolved (st1, b1)
           | CastRejected err \<Rightarrow>
               (case response_error_interceptor err b1 of
                  (err1, b2) \<Rightarrow> handleSubmit_settled (CastRejected err1) (st1, b2)))
      | (s1, _) \<Rightarrow> s1)"

subsection \<open>What is on screen, and what a click does\<close>

datatype screen = LoadingScreen | NoActiveElections | WizardScreen BallotData

definition render_screen :: "VotingPage \<Rightarrow> screen" where
  "render_screen st =
     (if loading st then LoadingScreen
      else case ballotData st of
             None \<Rightarrow> NoActiveElections
           | Some bd \<Rightarrow> if length (positions bd) = 0 then NoActiveElections else WizardScreen bd)"

text \<open>
  The button on the right of the navigation row, with its \<open>disabled\<close> attribute: ``Next
  Position'' before the last step, ``Submit Vote'' on it. The row is only rendered when
  the current position exists.
\<close>

datatype forward_button = NextPositionButton bool | SubmitVoteButton bool

definition forwardButton :: "VotingPage \<Rightarrow> forward_button option" where
  "forwardButton st =
     (case render_screen st of
        WizardScreen bd \<Rightarrow>
          (case currentPosition bd st of
             None \<Rightarrow> None
           | Some cp \<Rightarrow>
               Some (if int (currentStep st) < int (totalPositions bd) - 1
                     then NextPositionButton (\<not> has_vote st (pos_id cp))
                     else SubmitVoteButton (submitting st \<or> votedCount st \<noteq> totalPositions bd)))
      | _ \<Rightarrow> None)"

text \<open>
  The events of the page after it is mounted. A call that settles is an event that carries
  the outcome as the handler receives it. A click on a control that is not rendered, or
  that is rendered disabled, does nothing. The progress step buttons are rendered for
  every position of the ballot and call \<open>setCurrentStep(index)\<close> directly.
\<close>

datatype event =
    GetBallotSettled ballot_outcome
  | ClickCandidate string
  | ClickNext
  | ClickPrevious
  | ClickStep nat
  | ClickSubmit bool
  | CastVoteSettled cast_outcome

fun step :: "event \<Rightarrow> VotingPage \<times> browser \<Rightarrow> VotingPage \<times> browser" where
  "step (GetBallotSettled outcome) (st, b) =
     (if loading st \<and> ballotToken st \<noteq> [] then loadBallot_settled outcome (st, b) else (st, b))"
| "step (ClickCandidate candidateId) (st, b) =
     (case render_screen st of
        WizardScreen bd \<Rightarrow>
          (case currentPosition bd st of
             None \<Rightarrow> (st, b)
           | Some cp \<Rightarrow>
               if candidateId \<in> set (map cand_id (positionCandidates bd st))
               then (handleVoteChange (pos_id cp) candidateId st, b) else (st, b))
      | _ \<Rightarrow> (st, b))"
| "step ClickNext (st, b) =
     (case render_screen st of
        WizardScreen bd \<Rightarrow>
          if forwardButton st = Some (NextPositionButton False) then (handleNext bd st, b)
          else (st, b)
      | _ \<Rightarrow> (st, b))"
| "step ClickPrevious (st, b) =
     (case render_screen st of
        WizardScreen bd \<Rightarrow>
          if currentPosition bd st \<noteq> None \<and> currentStep st \<noteq> 0 then (handlePrevious st, b)
          else (st, b)
      | _ \<Rightarrow> (st, b))"
| "step (ClickStep index) (st, b) =
     (case render_screen st of
        WizardScreen bd \<Rightarrow>
          if index < length (positions bd) then (st\<lparr>currentStep := index\<rparr>, b) else (st, b)
      | _ \<Rightarrow> (st, b))"
| "step (ClickSubmit confirmed) (st, b) =
     (if forwardButton st = Some (SubmitVoteButton False)
      then fst (handleSubmit_begin confirmed (st, b)) else (st, b))"
| "step (CastVoteSettled outcome) (st, b) =
     (if submitting st then handleSubmit_settled outcome (st, b) else (st, b))"

definition run :: "event list \<Rightarrow> VotingPage \<times> browser \<Rightarrow> VotingPage \<times> browser" where
  "run evs s = fold step evs s"

text \<open>The states the page can be in: mounted in some browser, then any events.\<close>

inductive reachable :: "VotingPage \<times> browser \<Rightarrow> bool" where
  mounted: "reachable (fst (mountVotingPage stateToken (initialVotingPage, b)))"
| stepped: "reachable s \<Longrightarrow> reachable (step e s)"


section \<open>The route guard (ProtectedRoute)\<close>

datatype role = ADMIN | OFFICER | CANDIDATE

fun role_name :: "role \<Rightarrow> string" where
  "role_name ADMIN = ''ADMIN''"
| "role_name OFFICER = ''OFFICER''"
| "role_name CANDIDATE = ''CANDIDATE''"

datatype element = NavigateElement string | AccountDeactivated | Children

definition clear_session :: "storage \<Rightarrow> storage" where
  "clear_session ls = removeItem ''user'' (removeItem ''token'' ls)"

text \<open>
  The body of the \<open>try\<close> block after \<open>JSON.parse\<close>; \<open>None\<close> when reading a
  property throws.
\<close>

definition ProtectedRoute_try ::
  "role option \<Rightarrow> js_value \<Rightarrow> storage \<Rightarrow> (element \<times> storage) option" where
  "ProtectedRoute_try requiredRole user ls =
     do {
       status \<leftarrow> get_prop user ''status'';
       if status = JStr ''INACTIVE'' then
         do {
           role \<leftarrow> get_prop user ''role'';
           if role = JStr ''OFFICER'' then Some (AccountDeactivated, ls)
           else Some (NavigateElement ''/login'', clear_session ls)
         }
       else
         (case requiredRole of
            None \<Rightarrow> Some (Children, ls)
          | Some required \<Rightarrow>
              do {
                role \<leftarrow> get_prop user ''role'';
                if role \<noteq> JStr (role_name required) then
                  (if role = JStr ''ADMIN'' then Some (NavigateElement ''/admin/dashboard'', ls)
                   else if role = JStr ''OFFICER'' then Some (NavigateElement ''/officer/dashboard'', ls)
                   else if role = JStr ''CANDIDATE'' then Some (NavigateElement ''/candidate/dashboard'', ls)
                   else Some (NavigateElement ''/login'', ls))
                else Some (Children, ls)
              })
     }"

definition ProtectedRoute ::
  "(string \<Rightarrow> js_value option) \<Rightarrow> role option \<Rightarrow> storage \<Rightarrow> element \<times> storage" where
  "ProtectedRoute JSON_parse requiredRole ls =
     (let token = getItem ls ''token''; userStr = getItem ls ''user'' in
      if \<not> truthy token \<or> \<not> truthy userStr then (NavigateElement ''/login'', ls)
      else
        (case Option.bind (JSON_parse (the userStr))
                (\<lambda>user. ProtectedRoute_try requiredRole user ls) of
           Some result \<Rightarrow> result
         | None \<Rightarrow> (NavigateElement ''/login'', clear_session ls)))"

section \<open>Requesting a one-time code\<close>

text \<open>
  The message the unified login form and the OTP page build for a 429 response:
  \<open>`${errorMessage}. ${errorHint}`\<close> with
  \<open>errorMessage = data.error || 'Too many requests'\<close> and
  \<open>errorHint = data.hint || `Please wait ${data.retryAfter || 60} seconds before trying again`\<close>.
\<close>

definition rate_limit_errorMessage :: "axios_error \<Rightarrow> string" where
  "rate_limit_errorMessage err = or_else (response_error err) ''Too many requests''"

definition rate_limit_errorHint :: "axios_error \<Rightarrow> string" where
  "rate_limit_errorHint err =
     or_else (response_hint err)
       (''Please wait '' @
        decimal (case response_retryAfter err of
                         None \<Rightarrow> 60 | Some n \<Rightarrow> if n = 0 then 60 else n) @
        '' seconds before trying again'')"

definition rate_limit_message :: "axios_error \<Rightarrow> string" where
  "rate_limit_message err = rate_limit_errorMessage err @ ''. '' @ rate_limit_errorHint err"

datatype otp_outcome = OTPResolved | OTPRejected axios_error

subsection \<open>The unified login form of the home page\<close>

record UnifiedLoginFormData =
  email :: "string option"
  password :: "string option"
  regNo :: "string option"

record HomePage =
  home_error :: string
  home_loading :: bool

record session_user =
  user_id :: string
  user_email :: string
  user_name :: "string option"
  user_role :: string
  user_status :: string

record login_response =
  resp_token :: "string option"
  resp_user :: "session_user option"

datatype login_outcome = LoginResolved login_response | LoginRejected axios_error

definition user_to_js :: "session_user \<Rightarrow> js_value" where
  "user_to_js u =
     JObj [(''id'', JStr (user_id u)), (''email'', JStr (user_email u)),
           (''name'', case user_name u of None \<Rightarrow> JNull | Some n \<Rightarrow> JStr n),
           (''role'', JStr (user_role u)), (''status'', JStr (user_status u))]"

definition hasEmailPassword :: "js_strings \<Rightarrow> UnifiedLoginFormData \<Rightarrow> bool" where
  "hasEmailPassword S data =
     (truthy (email data) \<and> truthy (password data) \<and>
      trim S (or_else (email data) []) \<noteq> [] \<and> trim S (or_else (password data) []) \<noteq> [])"

definition hasRegNo :: "js_strings \<Rightarrow> UnifiedLoginFormData \<Rightarrow> bool" where
  "hasRegNo S data = (truthy (regNo data) \<and> trim S (or_else (regNo data) []) \<noteq> [])"

definition deactivated_notice :: string where
  "deactivated_notice =
     ''Your account has been deactivated. Please contact the administrator for assistance.''"

text \<open>The emoji of the welcome message, as UTF-8 bytes: crown, clipboard, target.\<close>

definition welcomeEmoji :: "string \<Rightarrow> string" where
  "welcomeEmoji r =
     (if r = ''ADMIN'' then [CHR 0xF0, CHR 0x9F, CHR 0x91, CHR 0x91]
      else if r = ''OFFICER'' then [CHR 0xF0, CHR 0x9F, CHR 0x93, CHR 0x8B]
      else [CHR 0xF0, CHR 0x9F, CHR 0x8E, CHR 0xAF])"

definition welcome_text :: "session_user \<Rightarrow> string" where
  "welcome_text u =
     (let userName = or_else (user_name u) (takeWhile (\<lambda>c. c \<noteq> CHR ''@'') (user_email u))
      in ''Welcome back, '' @ userName @ ''! '' @ welcomeEmoji (user_role u))"

definition dashboard_of :: "string \<Rightarrow> string" where
  "dashboard_of r =
     (if r = ''ADMIN'' then ''/admin/dashboard''
      else if r = ''OFFICER'' then ''/officer/dashboard''
      else if r = ''CANDIDATE'' then ''/candidate/dashboard''
      else ''/'')"

text \<open>\<open>onUnifiedLogin\<close> up to the call it awaits.\<close>

definition onUnifiedLogin_begin ::
  "js_strings \<Rightarrow> UnifiedLoginFormData \<Rightarrow> HomePage \<times> browser \<Rightarrow>
     (HomePage \<times> browser) \<times> api_request option" where
  "onUnifiedLogin_begin S data s =
     (case s of (st, b) \<Rightarrow>
        let st1 = st\<lparr>home_error := [], home_loading := True\<rparr> in
        if hasEmailPassword S data
        then ((st1, b),
              Some (Login (toLowerCase S (trim S (or_else (email data) [])))
                      (or_else (password data) [])))
        else if hasRegNo S data
        then ((st1, b), Some (RequestOTP (toUpperCase S (trim S (or_else (regNo data) [])))))
        else ((st1\<lparr>home_error := ''Please enter either email and password, or registration number'',
                   home_loading := False\<rparr>, b), None))"

text \<open>
  The password branch after the call. \<open>JSON_stringify\<close> is the platform's
  \<open>JSON.stringify\<close>, \<open>now\<close> the value of \<open>Date.now()\<close>.
\<close>

definition onUnifiedLogin_login_settled ::
  "(js_value \<Rightarrow> string) \<Rightarrow> int \<Rightarrow> login_outcome \<Rightarrow> HomePage \<times> browser \<Rightarrow> HomePage \<times> browser" where
  "onUnifiedLogin_login_settled JSON_stringify now outcome s =
     (case s of (st, b) \<Rightarrow>
        (case outcome of
           LoginResolved response \<Rightarrow>
             (case resp_user response of
                None \<Rightarrow> (st\<lparr>home_error := ''Invalid response from server'', home_loading := False\<rparr>, b)
              | Some u \<Rightarrow>
                  if \<not> truthy (resp_token response)
                  then (st\<lparr>home_error := ''Invalid response from server'', home_loading := False\<rparr>, b)
                  else if user_role u = ''OFFICER'' \<and> user_status u = ''INACTIVE''
                  then (st\<lparr>home_error := deactivated_notice, home_loading := False\<rparr>,
                        perform [storage_remove ''token'', storage_remove ''user''] b)
                  else (st,
                        perform
                          [storage_set ''token'' (or_else (resp_token response) []),
                           storage_set ''user'' (JSON_stringify (user_to_js u)),
                           storage_set ''welcomeMessage''
                             (JSON_stringify (JObj [(''message'', JStr (welcome_text u)),
                                                   (''timestamp'', JNum now)])),
                           emit (Navigate (dashboard_of (user_role u)) NoState)] b))
         | LoginRejected err \<Rightarrow>
             let errorMessage =
                   or_else (response_error err)
                     (or_else (Some (err_message err)) ''Login failed. Please try again.'')
             in (st\<lparr>home_error :=
                       (if str_includes errorMessage ''inactive'' \<or>
                           str_includes errorMessage ''deactivated''
                        then deactivated_notice else errorMessage),
                     home_loading := False\<rparr>, b)))"

text \<open>The voter branch after the call.\<close>

definition onUnifiedLogin_otp_settled ::
  "js_strings \<Rightarrow> UnifiedLoginFormData \<Rightarrow> otp_outcome \<Rightarrow> HomePage \<times> browser \<Rightarrow>
     HomePage \<times> browser" where
  "onUnifiedLogin_otp_settled S data outcome s =
     (case s of (st, b) \<Rightarrow>
        (case outcome of
           OTPResolved \<Rightarrow>
             (st, perform
                    [emit (ToastSuccess ''OTP sent to your phone! Check your SMS.''),
                     emit (Navigate ''/login/otp''
                            (RegNoState (toUpperCase S (trim S (or_else (regNo data) [])))))] b)
         | OTPRejected err \<Rightarrow>
             if response_status err = Some 429
             then (st\<lparr>home_error := rate_limit_message err, home_loading := False\<rparr>, b)
             else (st\<lparr>home_error :=
                         or_else (response_error err)
                           (or_else (Some (err_message err)) ''Failed to send OTP''),
                       home_loading := False\<rparr>, b)))"

text \<open>
  The whole handler. \<open>login\<close> and \<open>requestOTP\<close> are the backend: the outcome of each
  request as it comes back over HTTP. Both calls go through the API client, so a rejection
  reaches the handler through the response interceptor, which may replace the error and
  acts on the browser first.
\<close>

definition onUnifiedLogin ::
  "js_strings \<Rightarrow> (js_value \<Rightarrow> string) \<Rightarrow> int \<Rightarrow> (string \<Rightarrow> string \<Rightarrow> login_outcome) \<Rightarrow>
     (string \<Rightarrow> otp_outcome) \<Rightarrow> UnifiedLoginFormData \<Rightarrow> HomePage \<times> browser \<Rightarrow> HomePage \<times> browser" where
  "onUnifiedLogin S JSON_stringify now login requestOTP data s =
     (case onUnifiedLogin_begin S data s of
        ((st1, b1), Some (Login e p)) \<Rightarrow>
          (case login e p of
             LoginResolved response \<Rightarrow>
               onUnifiedLogin_login_settled JSON_stringify now (LoginResolved response) (st1, b1)
           | LoginRejected err \<Rightarrow>
               (case response_error_interceptor err b1 of
                  (err1, b2) \<Rightarrow>
                    onUnifiedLogin_login_settled JSON_stringify now (LoginRejected err1) (st1, b2)))
      | ((st1, b1), Some (RequestOTP r)) \<Rightarrow>
          (case requestOTP r of
             OTPResolved \<Rightarrow> onUnifiedLogin_otp_settled S data OTPResolved (st1, b1)
           | OTPRejected err \<Rightarrow>
               (case response_error_interceptor err b1 of
                  (err1, b2) \<Rightarrow> onUnifiedLogin_otp_settled S data (OTPRejected err1) (st1, b2)))
      | (s1, _) \<Rightarrow> s1)"

subsection \<open>The voter form of the login page\<close>

record UnifiedLoginPage =
  login_error :: string
  login_loading :: bool

definition onVoterLogin_begin ::
  "js_strings \<Rightarrow> string option \<Rightarrow> UnifiedLoginPage \<times> browser \<Rightarrow>
     (UnifiedLoginPage \<times> browser) \<times> api_request option" where
  "onVoterLogin_begin S data_regNo s =
     (case s of (st, b) \<Rightarrow>
        if \<not> truthy data_regNo \<or> trim S (or_else data_regNo []) = []
        then ((st\<lparr>login_error := ''Registration number is required''\<rparr>, b), None)
        else ((st\<lparr>login_error := [], login_loading := True\<rparr>, b),
              Some (RequestOTP (toUpperCase S (trim S (or_else data_regNo []))))))"

definition onVoterLogin_settled ::
  "js_strings \<Rightarrow> string option \<Rightarrow> otp_outcome \<Rightarrow> UnifiedLoginPage \<times> browser \<Rightarrow>
     UnifiedLoginPage \<times> browser" where
  "onVoterLogin_settled S data_regNo outcome s =
     (case s of (st, b) \<Rightarrow>
        (case outcome of
           OTPResolved \<Rightarrow>
             (st\<lparr>login_loading := False\<rparr>,
              perform
                [emit (ToastSuccess ''OTP sent to your phone! Check your SMS.''),
                 emit (Navigate ''/login/otp''
                        (RegNoState (toUpperCase S (trim S (or_else data_regNo [])))))] b)
         | OTPRejected err \<Rightarrow>
             if response_status err = Some 429
             then (st\<lparr>login_error := rate_limit_message err, login_loading := False\<rparr>, b)
             else (st\<lparr>login_error :=
                         or_else (response_error err)
                           (or_else (Some (err_message err)) ''Failed to send OTP''),
                       login_loading := False\<rparr>, b)))"

subsection \<open>The resend action of the OTP page\<close>

record VoterOTPPage =
  otp_regNo :: string
  otp_loading :: bool

definition handleResendOTP_begin ::
  "js_strings \<Rightarrow> VoterOTPPage \<times> browser \<Rightarrow> (VoterOTPPage \<times> browser) \<times> api_request option" where
  "handleResendOTP_begin S s =
     (case s of (st, b) \<Rightarrow>
        if otp_regNo st = []
        then ((st, emit (ToastError ''Registration number is required'') b), None)
        else ((st, b), Some (RequestOTP (toUpperCase S (trim S (otp_regNo st))))))"

definition handleResendOTP_settled ::
  "otp_outcome \<Rightarrow> VoterOTPPage \<times> browser \<Rightarrow> VoterOTPPage \<times> browser" where
  "handleResendOTP_settled outcome s =
     (case s of (st, b) \<Rightarrow>
        (case outcome of
           OTPResolved \<Rightarrow> (st, emit (ToastSuccess ''New OTP sent to your phone via SMS!'') b)
         | OTPRejected err \<Rightarrow>
             if response_status err = Some 429
             then (st, emit (ToastError (rate_limit_message err)) b)
             else (st, emit (ToastError (or_else (response_error err) ''Failed to resend OTP'')) b)))"

definition handleResendOTP ::
  "js_strings \<Rightarrow> (string \<Rightarrow> otp_outcome) \<Rightarrow> VoterOTPPage \<times> browser \<Rightarrow> VoterOTPPage \<times> browser" where
  "handleResendOTP S requestOTP s =
     (case handleResendOTP_begin S s of
        ((st1, b1), Some (RequestOTP r)) \<Rightarrow>
          (case requestOTP r of
             OTPResolved \<Rightarrow> handleResendOTP_settled OTPResolved (st1, b1)
           | OTPRejected err \<Rightarrow>
               (case response_error_interceptor err b1 of
                  (err1, b2) \<Rightarrow> handleResendOTP_settled (OTPRejected err1) (st1, b2)))
      | (s1, _) \<Rightarrow> s1)"

subsection \<open>The verification page\<close>

datatype verification_step = RequestStep | VerifyStep

record VerificationPage =
  ver_step :: verification_step
  ver_regNo :: string
  ver_loading :: bool
  ver_otpSent :: bool

definition onRequestOTP_begin ::
  "string \<Rightarrow> VerificationPage \<times> browser \<Rightarrow> (VerificationPage \<times> browser) \<times> api_request option" where
  "onRequestOTP_begin data_regNo s =
     (case s of (st, b) \<Rightarrow> ((st\<lparr>ver_loading := True\<rparr>, b), Some (RequestOTP data_regNo)))"

definition onRequestOTP_settled ::
  "string \<Rightarrow> otp_outcome \<Rightarrow> VerificationPage \<times> browser \<Rightarrow> VerificationPage \<times> browser" where
  "onRequestOTP_settled data_regNo outcome s =
     (case s of (st, b) \<Rightarrow>
        (case outcome of
           OTPResolved \<Rightarrow>
             (st\<lparr>ver_regNo := data_regNo, ver_otpSent := True, ver_step := VerifyStep,
                 ver_loading := False\<rparr>,
              perform
                [emit (ToastSuccess ''OTP sent to your phone! Check your SMS.''),
                 emit (SetTimeout 300 FocusOtpInput)] b)
         | OTPRejected err \<Rightarrow>
             (st\<lparr>ver_loading := False\<rparr>,
              if response_status err = Some 429
              then perform
                     ([emit (ToastError (rate_limit_errorMessage err))] @
                      (if rate_limit_errorHint err \<noteq> []
                       then [emit (ToastError (rate_limit_errorHint err))] else [])) b
              else perform
                     ([emit (ToastError (or_else (response_error err) ''Failed to send OTP''))] @
                      (if truthy (response_hint err)
                       then [emit (ToastError (or_else (response_hint err) []))] else [])) b)))"

text \<open>The inline handler of the verification page's ``Resend OTP'' button, after its call.\<close>

definition verification_resend_settled ::
  "otp_outcome \<Rightarrow> VerificationPage \<times> browser \<Rightarrow> VerificationPage \<times> browser" where
  "verification_resend_settled outcome s =
     (case s of (st, b) \<Rightarrow>
        (case outcome of
           OTPResolved \<Rightarrow> (st, emit (ToastSuccess ''New OTP sent to your phone via SMS!'') b)
         | OTPRejected err \<Rightarrow>
             (st, emit (ToastError (or_else (response_error err) ''Failed to resend OTP'')) b)))"

section \<open>The welcome banner of the dashboards\<close>

text \<open>
  The candidate, administrator and officer dashboards run the same effect when they are
  mounted. \<open>welcomeMessage\<close> is the component state that the banner renders,
  \<open>null\<close> at first; \<open>now\<close> is \<open>Date.now()\<close> at the time the effect runs.
\<close>

record Dashboard =
  welcomeMessage :: js_value





definition closeBanner :: "Dashboard \<times> browser \<Rightarrow> Dashboard \<times> browser" where
  "closeBanner s = (case s of (st, b) \<Rightarrow> (st\<lparr>welcomeMessage := JNull\<rparr>, b))"





section \<open>The static file server\<close>

text \<open>
  The server mounts three middlewares: \<open>compression()\<close>, \<open>express.static\<close> on the
  \<open>dist\<close> directory, and the catch-all for client-side routing. \<open>express.static\<close>
  belongs to the framework and is a parameter: \<open>static_file req\<close> is what it does with
  the request. As it is configured here it does one of four things.
  \<^item> It sends a file of the build (or, when the request is conditional and the client's
    copy is fresh, the 304 that stands for it). Before that it calls the \<open>setHeaders\<close>
    option with the file's path; then it adds headers of its own (among them a
    \<open>Cache-Control\<close> derived from \<open>maxAge\<close>, only if none is set by then). The
    headers recorded here are those that \<open>setHeaders\<close> sets.
  \<^item> It answers with a redirect of its own: a directory of the build that is requested
    without a trailing slash is redirected, with status 301, to the same path with the
    slash.
  \<^item> It fails with an error. The catch-all is not an error handler and is skipped; the
    framework's error handler answers with the status of the error.
  \<^item> It passes the request on to the catch-all.

  Compression does not change which response is chosen and is left out.
\<close>

type_synonym headers = "(string \<times> string) list"

definition setHeader :: "string \<Rightarrow> string \<Rightarrow> headers \<Rightarrow> headers" where
  "setHeader name v res = AList.update name v res"

definition setHeaders :: "string \<Rightarrow> headers \<Rightarrow> headers" where
  "setHeaders path res =
     (let res1 = (if suffix ''.html'' path
                  then setHeader ''Cache-Control'' ''public, max-age=0, must-revalidate'' res
                  else res)
      in if suffix ''.js'' path \<or> suffix ''.css'' path
         then setHeader ''Cache-Control'' ''public, max-age=31536000, immutable'' res1
         else res1)"

record request =
  req_method :: string
  req_path :: string

datatype static_outcome =
    SendsFile string
  | Redirects string
  | Fails nat
  | PassesOn

datatype server_response =
    StaticFile string headers
  | Redirect nat string
  | ErrorResponse nat
  | Json nat "(string \<times> string) list"
  | SendFile string

definition spa_fallback :: "request \<Rightarrow> server_response" where
  "spa_fallback req =
     (if prefix ''/api'' (req_path req) then Json 404 [(''error'', ''API route not found'')]
      else SendFile ''dist/index.html'')"

definition handle_request :: "(request \<Rightarrow> static_outcome) \<Rightarrow> request \<Rightarrow> server_response" where
  "handle_request static_file req =
     (case static_file req of
        SendsFile path \<Rightarrow> StaticFile path (setHeaders path [])
      | Redirects location \<Rightarrow> Redirect 301 location
      | Fails status \<Rightarrow> ErrorResponse status
      | PassesOn \<Rightarrow> spa_fallback req)"

section \<open>Auxiliary definitions for the proofs\<close>

text \<open>
  The positions of the ballot, by identifier, that have an entry in the selection map.
\<close>

definition positionsWithSelection :: "BallotData \<Rightarrow> VotingPage \<Rightarrow> string set" where
  "positionsWithSelection bd st =
     set (filter (\<lambda>p. map_of (votes st) p \<noteq> None) (map pos_id (positions bd)))"

text \<open>
  What every reachable state of the wizard satisfies: the selection map has each key once,
  only positions of the loaded ballot are keys, nothing is selected before the ballot is
  loaded, and the current step is a position of the ballot.
\<close>

definition wizard_inv :: "VotingPage \<Rightarrow> bool" where
  "wizard_inv st =
     (distinct (map fst (votes st)) \<and>
      (loading st \<longrightarrow> ballotData st = None) \<and>
      (case ballotData st of
         None \<Rightarrow> votes st = [] \<and> currentStep st = 0
       | Some bd \<Rightarrow> fst ` set (votes st) \<subseteq> pos_id ` set (positions bd) \<and>
                   (positions bd \<noteq> [] \<longrightarrow> currentStep st < length (positions bd))))"

text \<open>A ballot with two positions, and a browser that holds a ballot token.\<close>

definition example_ballot :: ballot_response where
  "example_ballot =
     \<lparr>resp_positions = Some
        [\<lparr>pos_id = ''p1'', pos_name = ''President'', seats = 1,
          votingOpens = ''2025-01-01'', votingCloses = ''2025-01-02''\<rparr>,
         \<lparr>pos_id = ''p2'', pos_name = ''Secretary'', seats = 1,
          votingOpens = ''2025-01-01'', votingCloses = ''2025-01-02''\<rparr>],
      resp_candidates = Some
        [\<lparr>cand_id = ''alice'', cand_name = ''Alice'', program = ''BSc'', photoUrl = None,
          cand_status = ''APPROVED'', cand_position_id = ''p1'', cand_position_name = ''President''\<rparr>,
         \<lparr>cand_id = ''carol'', cand_name = ''Carol'', program = ''BA'', photoUrl = None,
          cand_status = ''APPROVED'', cand_position_id = ''p2'', cand_position_name = ''Secretary''\<rparr>]\<rparr>"

definition example_ballotData :: BallotData where
  "example_ballotData =
     \<lparr>positions = or_empty (resp_positions example_ballot),
      candidates = or_empty (resp_candidates example_ballot)\<rparr>"

definition example_browser :: browser where
  "example_browser = \<lparr>localStorage = [''ballotToken'' \<mapsto> ''tok''], effects = []\<rparr>"

definition example_loaded :: "VotingPage \<times> browser" where
  "example_loaded =
     step (GetBallotSettled (BallotResolved example_ballot))
       (fst (mountVotingPage None (initialVotingPage, example_browser)))"

text \<open>The 401 response to a deactivated account.\<close>

definition deactivated_401 :: axios_error where
  "deactivated_401 =
     \<lparr>err_response = Some \<lparr>resp_status = 401,
         resp_data = \<lparr>data_error = Some ''Your account has been deactivated'', data_hint = None,
                      data_retryAfter = None, data_closedPositions = []\<rparr>\<rparr>,
      err_message = ''Request failed with status code 401''\<rparr>"

text \<open>
  Texts found under the \<open>user\<close> and \<open>welcomeMessage\<close> keys, a stored session, and
  \<open>JSON.parse\<close> on some of the texts: stored users, a text cut off in the middle, and
  a welcome record.
\<close>

definition inactive_officer_json :: string where
  \<open>inactive_officer_json = ''{"id":"u7","name":"Dee","role":"OFFICER","status":"INACTIVE"}''\<close>

definition stored_session :: browser where
  "stored_session =
     \<lparr>localStorage = [''token'' \<mapsto> ''jwt'', ''user'' \<mapsto> inactive_officer_json],
      effects = []\<rparr>"

definition inactive_admin_json :: string where
  \<open>inactive_admin_json = ''{"id":"u1","name":"Ada","role":"ADMIN","status":"INACTIVE"}''\<close>

definition inactive_candidate_json :: string where
  \<open>inactive_candidate_json = ''{"id":"u2","name":"Bo","role":"CANDIDATE","status":"INACTIVE"}''\<close>

definition active_candidate_json :: string where
  \<open>active_candidate_json = ''{"id":"u3","name":"Cy","role":"CANDIDATE","status":"ACTIVE"}''\<close>

definition truncated_json :: string where
  \<open>truncated_json = ''{"id":"u3","name''\<close>

definition welcome_json :: string where
  \<open>welcome_json = ''{"message":"Welcome back, Ada!","timestamp":1700000000000}''\<close>

definition example_JSON_parse :: "string \<Rightarrow> js_value option" where
  "example_JSON_parse s =
     (if s = inactive_admin_json
      then Some (JObj [(''id'', JStr ''u1''), (''name'', JStr ''Ada''),
                       (''role'', JStr ''ADMIN''), (''status'', JStr ''INACTIVE'')])
      else if s = inactive_candidate_json
      then Some (JObj [(''id'', JStr ''u2''), (''name'', JStr ''Bo''),
                       (''role'', JStr ''CANDIDATE''), (''status'', JStr ''INACTIVE'')])
      else if s = active_candidate_json
      then Some (JObj [(''id'', JStr ''u3''), (''name'', JStr ''Cy''),
                       (''role'', JStr ''CANDIDATE''), (''status'', JStr ''ACTIVE'')])
      else if s = welcome_json
      then Some (JObj [(''message'', JStr ''Welcome back, Ada!''),
                       (''timestamp'', JNum 1700000000000)])
      else None)"

definition session_of :: "string \<Rightarrow> storage" where
  "session_of userStr = [''token'' \<mapsto> ''jwt'', ''user'' \<mapsto> userStr]"

text \<open>Two 429 responses, one with all fields and one with none, and a filled login form.\<close>

definition rate_limited_429 :: axios_error where
  "rate_limited_429 =
     \<lparr>err_response = Some \<lparr>resp_status = 429,
         resp_data = \<lparr>data_error = Some ''Too many OTP requests'',
                      data_hint = Some ''Try again in 45 seconds'',
                      data_retryAfter = Some 45, data_closedPositions = []\<rparr>\<rparr>,
      err_message = ''Request failed with status code 429''\<rparr>"

definition bare_429 :: axios_error where
  "bare_429 =
     \<lparr>err_response = Some \<lparr>resp_status = 429,
         resp_data = \<lparr>data_error = None, data_hint = None,
                      data_retryAfter = None, data_closedPositions = []\<rparr>\<rparr>,
      err_message = ''Request failed with status code 429''\<rparr>"

definition regNo_only :: UnifiedLoginFormData where
  "regNo_only = \<lparr>email = Some [], password = Some [], regNo = Some ''  ab12/x ''\<rparr>"

definition blank_home :: "HomePage \<times> browser" where
  "blank_home = (\<lparr>home_error = [], home_loading = False\<rparr>, \<lparr>localStorage = Map.empty, effects = []\<rparr>)"


text \<open>The router navigations among a list of effects.\<close>

fun navigations :: "effect list \<Rightarrow> (string \<times> nav_state) list" where
  "navigations [] = []"
| "navigations (Navigate p st # es) = (p, st) # navigations es"
| "navigations (e # es) = navigations es"

text \<open>
  The three string methods on ASCII text, for the examples: on ASCII text \<open>trim\<close>
  strips tab, line feed, vertical tab, form feed, carriage return and space from both
  ends, and the case conversions change the letters \<open>a\<close> to \<open>z\<close> (\<open>A\<close> to
  \<open>Z\<close>) and nothing else. They are applied to ASCII text only.
\<close>

definition is_space :: "char \<Rightarrow> bool" where
  "is_space c = (c \<in> set [CHR 0x09, CHR 0x0A, CHR 0x0B, CHR 0x0C, CHR 0x0D, CHR 0x20])"

definition ascii_trim :: "string \<Rightarrow> string" where
  "ascii_trim s = rev (dropWhile is_space (rev (dropWhile is_space s)))"

definition upper_char :: "char \<Rightarrow> char" where
  "upper_char c =
     (let n = (of_char c :: nat) in if 97 \<le> n \<and> n \<le> 122 then char_of (n - 32) else c)"

definition lower_char :: "char \<Rightarrow> char" where
  "lower_char c =
     (let n = (of_char c :: nat) in if 65 \<le> n \<and> n \<le> 90 then char_of (n + 32) else c)"

definition ascii_strings :: js_strings where
  "ascii_strings =
     \<lparr>trim = ascii_trim, toUpperCase = map upper_char, toLowerCase = map lower_char\<rparr>"

text \<open>
  A build as the bundler writes it: the entry document and an \<open>assets\<close> directory with
  the script and the style sheet. For \<open>GET\<close> and \<open>HEAD\<close> requests
  \<open>express.static\<close> on it sends the three files (the entry document also for the
  root path), redirects the directory requested without a trailing slash, and passes
  everything else on; requests with another method it passes on.
\<close>

definition dist_files :: "request \<Rightarrow> static_outcome" where
  "dist_files req =
     (if req_method req \<in> set [''GET'', ''HEAD''] then
        (if req_path req \<in> set [''/index.html'', ''/assets/index-4f2a.js'',
                                  ''/assets/index-9c1d.css'']
         then SendsFile (''dist'' @ req_path req)
         else if req_path req = ''/'' then SendsFile ''dist/index.html''
         else if req_path req = ''/assets'' then Redirects ''/assets/''
         else PassesOn)
      else PassesOn)"

text \<open>A build that also has a file whose name starts with \<open>api\<close>.\<close>

definition dist_with_api_guide :: "request \<Rightarrow> static_outcome" where
  "dist_with_api_guide req =
     (if req_method req \<in> set [''GET'', ''HEAD''] \<and> req_path req = ''/api-guide.html''
      then SendsFile ''dist/api-guide.html'' else dist_files req)"

section \<open>Properties of the ballot casting wizard\<close>

lemma wizard_inv_mount: "wizard_inv (fst (fst (mountVotingPage tok (initialVotingPage, b))))"
  by (simp add: mountVotingPage_def initialVotingPage_def wizard_inv_def Let_def)

lemma wizard_inv_handleVoteChange:
  assumes "wizard_inv st" "ballotData st = Some bd" "p \<in> pos_id ` set (positions bd)"
  shows "wizard_inv (handleVoteChange p c st)"
proof -
  have upd: "fst ` set (AList.update p c (votes st)) \<subseteq> pos_id ` set (positions bd)"
    using assms by (auto simp: wizard_inv_def dom_update)
  have del: "fst ` set (AList.delete p (votes st)) \<subseteq> pos_id ` set (positions bd)"
    using assms dom_delete_subset [of p "votes st"] by (auto simp: wizard_inv_def)
  show ?thesis
    using assms upd del
    by (simp add: wizard_inv_def handleVoteChange_def distinct_update distinct_delete)
qed

lemma wizard_inv_step: "wizard_inv (fst s) \<Longrightarrow> wizard_inv (fst (step e s))"
proof (cases s)
  case (Pair st b)
  assume inv: "wizard_inv (fst s)"
  show ?thesis
  proof (cases e)
    case (GetBallotSettled out)
    then show ?thesis using inv Pair
      by (cases out) (auto simp: wizard_inv_def loadBallot_settled_def split: option.splits)
  next
    case (ClickCandidate c)
    then show ?thesis using inv Pair
      by (auto simp: render_screen_def currentPosition_def
          intro!: wizard_inv_handleVoteChange split: option.splits if_splits)
  next
    case ClickNext
    then show ?thesis using inv Pair
      by (auto simp: wizard_inv_def render_screen_def handleNext_def
          split: option.splits if_splits)
  next
    case ClickPrevious
    then show ?thesis using inv Pair
      by (auto simp: wizard_inv_def render_screen_def handlePrevious_def
          split: option.splits if_splits)
  next
    case (ClickStep i)
    then show ?thesis using inv Pair
      by (auto simp: wizard_inv_def render_screen_def split: option.splits if_splits)
  next
    case (ClickSubmit c)
    then show ?thesis using inv Pair
      by (auto simp: wizard_inv_def handleSubmit_begin_def Let_def
          split: option.splits if_splits)
  next
    case (CastVoteSettled out)
    then show ?thesis using inv Pair
      by (auto simp: wizard_inv_def handleSubmit_settled_def split: option.splits if_splits)
  qed
qed

lemma reachable_inv: "reachable s \<Longrightarrow> wizard_inv (fst s)"
  by (induction rule: reachable.induct) (simp_all add: wizard_inv_mount wizard_inv_step)

lemma reachable_run: "reachable s \<Longrightarrow> reachable (run evs s)"
proof (induction evs arbitrary: s)
  case Nil
  then show ?case by (simp add: run_def)
next
  case (Cons e evs)
  from Cons.IH [OF reachable.stepped [OF Cons.prems, of e]]
  show ?case by (simp add: run_def)
qed

lemma reachable_example: "reachable (run evs example_loaded)"
  unfolding example_loaded_def by (intro reachable_run reachable.stepped reachable.mounted)

lemma votedCount_card:
  assumes "wizard_inv st" "ballotData st = Some bd"
  shows "votedCount st = card (positionsWithSelection bd st)"
proof -
  from assms have d: "distinct (map fst (votes st))"
    and sub: "fst ` set (votes st) \<subseteq> pos_id ` set (positions bd)"
    by (auto simp: wizard_inv_def)
  have "positionsWithSelection bd st = fst ` set (votes st)"
    using sub by (auto simp: positionsWithSelection_def map_of_eq_None_iff)
  moreover have "card (fst ` set (votes st)) = length (votes st)"
    using d distinct_card[of "map fst (votes st)"] by simp
  ultimately show ?thesis by (simp add: votedCount_def Object_keys_def)
qed

lemmas wizard_eval =
  run_def example_loaded_def example_ballot_def example_ballotData_def example_browser_def
  mountVotingPage_def initialVotingPage_def truthy_def getItem_def loadBallot_settled_def
  or_empty_def render_screen_def currentPosition_def positionCandidates_def
  handleVoteChange_def forwardButton_def has_vote_def votedCount_def totalPositions_def
  Object_keys_def handleSubmit_begin_def missingPositions_def Let_def handleNext_def
  handlePrevious_def

text \<open>
  C2 (as the code has it). In every reachable state of the wizard, the ``Submit Vote''
  button is on screen and enabled exactly when the ballot is displayed at its last
  position, no submission is in flight, and the number of distinct positions with a recorded
  selection equals the number of positions of the ballot. Submitting needs the user's
  confirmation: when the confirmation dialog is declined, no request is sent. When the
  vote is cast successfully, the ballot token is no longer in local storage.
\<close>

theorem submit_enabled_iff:
  assumes "reachable (st, b)"
  shows "(forwardButton st = Some (SubmitVoteButton False) \<longleftrightarrow>
            (\<exists>bd. render_screen st = WizardScreen bd \<and>
               Suc (currentStep st) = length (positions bd) \<and> \<not> submitting st \<and>
               card (positionsWithSelection bd st) = length (positions bd))) \<and>
         snd (handleSubmit_begin False (st, b)) = None \<and>
         getItem (localStorage (snd (handleSubmit_settled CastResolved (st, b)))) ''ballotToken''
           = None"
proof -
  have inv: "wizard_inv st" using reachable_inv[OF assms] by simp
  have a: "forwardButton st = Some (SubmitVoteButton False) \<longleftrightarrow>
            (\<exists>bd. render_screen st = WizardScreen bd \<and>
               Suc (currentStep st) = length (positions bd) \<and> \<not> submitting st \<and>
               card (positionsWithSelection bd st) = length (positions bd))"
  proof (cases "render_screen st")
    case (WizardScreen bd)
    then have bd: "ballotData st = Some bd" and ne: "positions bd \<noteq> []"
      by (auto simp: render_screen_def split: if_splits option.splits)
    from inv bd ne have lt: "currentStep st < length (positions bd)"
      by (simp add: wizard_inv_def)
    show ?thesis
      using WizardScreen lt votedCount_card[OF inv bd]
      by (auto simp: forwardButton_def currentPosition_def totalPositions_def)
  qed (simp_all add: forwardButton_def)
  have b: "snd (handleSubmit_begin False (st, b)) = None"
    by (simp add: handleSubmit_begin_def Let_def split: option.splits)
  have c: "getItem (localStorage (snd (handleSubmit_settled CastResolved (st, b)))) ''ballotToken'' = None"
    by (simp add: handleSubmit_settled_def perform_def emit_def storage_remove_def
        removeItem_def getItem_def)
  from a b c show ?thesis by simp
qed

text \<open>
  Both positions voted, the last one displayed, nothing in flight: the button is enabled.
\<close>

theorem submit_enabled_iff_witness:
  "reachable (run [ClickCandidate ''alice'', ClickStep 1, ClickCandidate ''carol''] example_loaded) \<and>
   forwardButton (fst (run [ClickCandidate ''alice'', ClickStep 1, ClickCandidate ''carol'']
      example_loaded)) = Some (SubmitVoteButton False) \<and>
   card (positionsWithSelection example_ballotData
      (fst (run [ClickCandidate ''alice'', ClickStep 1, ClickCandidate ''carol''] example_loaded)))
     = length (positions example_ballotData)"
proof -
  let ?s = "run [ClickCandidate ''alice'', ClickStep 1, ClickCandidate ''carol''] example_loaded"
  have r: "reachable (fst ?s, snd ?s)" using reachable_example by simp
  have scr: "render_screen (fst ?s) = WizardScreen example_ballotData"
    by (simp add: wizard_eval)
  have cnt: "card (positionsWithSelection example_ballotData (fst ?s))
               = length (positions example_ballotData)"
    by (simp add: wizard_eval positionsWithSelection_def)
  have "Suc (currentStep (fst ?s)) = length (positions example_ballotData)"
    and "\<not> submitting (fst ?s)"
    by (simp_all add: wizard_eval)
  with scr cnt submit_enabled_iff [OF r]
  have "forwardButton (fst ?s) = Some (SubmitVoteButton False)" by blast
  with r cnt show ?thesis by simp
qed

text \<open>
  The equivalence without the two extra conditions fails. With both positions voted, the
  button is disabled while the submission is in flight, and when the first position is
  displayed again the button on screen is ``Next Position'', not ``Submit Vote''.
\<close>

theorem submit_enabled_counterexample:
  "ballotData (fst (run [ClickCandidate ''alice'', ClickStep 1, ClickCandidate ''carol'',
       ClickSubmit True] example_loaded)) = Some example_ballotData \<and>
   card (positionsWithSelection example_ballotData
      (fst (run [ClickCandidate ''alice'', ClickStep 1, ClickCandidate ''carol'',
         ClickSubmit True] example_loaded))) = length (positions example_ballotData) \<and>
   forwardButton (fst (run [ClickCandidate ''alice'', ClickStep 1, ClickCandidate ''carol'',
       ClickSubmit True] example_loaded)) = Some (SubmitVoteButton True) \<and>
   ballotData (fst (run [ClickCandidate ''alice'', ClickNext, ClickCandidate ''carol'',
       ClickPrevious] example_loaded)) = Some example_ballotData \<and>
   card (positionsWithSelection example_ballotData
      (fst (run [ClickCandidate ''alice'', ClickNext, ClickCandidate ''carol'',
         ClickPrevious] example_loaded))) = length (positions example_ballotData) \<and>
   forwardButton (fst (run [ClickCandidate ''alice'', ClickNext, ClickCandidate ''carol'',
       ClickPrevious] example_loaded)) = Some (NextPositionButton False)"
  by (simp add: wizard_eval positionsWithSelection_def)

text \<open>
  C3 (as the code has it). An event moves the wizard to a later position only if it is a
  click on ``Next Position'', which requires that the displayed position has a recorded
  selection, or a click on a progress step button; and a progress step button moves to
  its position whether or not anything is selected.
\<close>

theorem later_position_only_by_next_or_step_button:
  "(currentStep st < currentStep (fst (step e (st, b))) \<longrightarrow>
      (e = ClickNext \<and>
       (\<exists>bd cp. render_screen st = WizardScreen bd \<and> currentPosition bd st = Some cp \<and>
                 has_vote st (pos_id cp))) \<or>
      (\<exists>i. e = ClickStep i)) \<and>
   (\<forall>bd i. render_screen st = WizardScreen bd \<and> i < length (positions bd) \<longrightarrow>
      currentStep (fst (step (ClickStep i) (st, b))) = i)"
proof -
  have a: "currentStep st < currentStep (fst (step e (st, b))) \<longrightarrow>
      (e = ClickNext \<and>
       (\<exists>bd cp. render_screen st = WizardScreen bd \<and> currentPosition bd st = Some cp \<and>
                 has_vote st (pos_id cp))) \<or>
      (\<exists>i. e = ClickStep i)"
  proof (cases e)
    case (GetBallotSettled out)
    then show ?thesis
      by (cases out) (auto simp: loadBallot_settled_def)
  next
    case (ClickCandidate c)
    then show ?thesis
      by (auto simp: handleVoteChange_def split: screen.splits option.splits if_splits)
  next
    case ClickNext
    then show ?thesis
      by (auto simp: forwardButton_def split: screen.splits option.splits if_splits)
  next
    case ClickPrevious
    then show ?thesis
      by (auto simp: handlePrevious_def split: screen.splits option.splits if_splits)
  next
    case (ClickStep i)
    then show ?thesis by simp
  next
    case (ClickSubmit c)
    then show ?thesis
      by (auto simp: handleSubmit_begin_def Let_def split: option.splits if_splits)
  next
    case (CastVoteSettled out)
    then show ?thesis
      by (auto simp: handleSubmit_settled_def)
  qed
  have b: "\<forall>bd i. render_screen st = WizardScreen bd \<and> i < length (positions bd) \<longrightarrow>
      currentStep (fst (step (ClickStep i) (st, b))) = i"
    by simp
  from a b show ?thesis by blast
qed

text \<open>After a vote for the first position, ``Next Position'' moves on.\<close>

theorem later_position_witness:
  "currentStep (fst (run [ClickCandidate ''alice''] example_loaded))
     < currentStep (fst (step ClickNext (run [ClickCandidate ''alice''] example_loaded))) \<and>
   (\<exists>bd cp. render_screen (fst (run [ClickCandidate ''alice''] example_loaded)) = WizardScreen bd \<and>
      currentPosition bd (fst (run [ClickCandidate ''alice''] example_loaded)) = Some cp \<and>
      has_vote (fst (run [ClickCandidate ''alice''] example_loaded)) (pos_id cp)) \<and>
   currentStep (fst (step (ClickStep 1) (run [ClickCandidate ''alice''] example_loaded))) = 1"
proof -
  let ?s = "run [ClickCandidate ''alice''] example_loaded"
  have lt: "currentStep (fst ?s) < currentStep (fst (step ClickNext (fst ?s, snd ?s)))"
    by (simp add: wizard_eval)
  have scr: "render_screen (fst ?s) = WizardScreen example_ballotData"
    and len: "1 < length (positions example_ballotData)"
    by (simp_all add: wizard_eval)
  from later_position_only_by_next_or_step_button [of "fst ?s" ClickNext "snd ?s"] lt
  have sel: "\<exists>bd cp. render_screen (fst ?s) = WizardScreen bd \<and>
      currentPosition bd (fst ?s) = Some cp \<and> has_vote (fst ?s) (pos_id cp)"
    by blast
  from later_position_only_by_next_or_step_button [of "fst ?s" ClickNext "snd ?s"] scr len
  have "currentStep (fst (step (ClickStep 1) (fst ?s, snd ?s))) = 1"
    by blast
  with lt sel show ?thesis by simp
qed

text \<open>
  On the freshly loaded ballot nothing is selected for the first position, and a click on
  the second progress step button still moves to the second position.
\<close>

theorem next_requires_selection_counterexample:
  "render_screen (fst example_loaded) = WizardScreen example_ballotData \<and>
   currentStep (fst example_loaded) = 0 \<and>
   map_option pos_id (currentPosition example_ballotData (fst example_loaded)) = Some ''p1'' \<and>
   \<not> has_vote (fst example_loaded) ''p1'' \<and>
   votes (fst example_loaded) = [] \<and>
   currentStep (fst (step (ClickStep 1) example_loaded)) = 1"
  by (simp add: wizard_eval)

lemma delete_update_fresh:
  "k \<notin> fst ` set al \<Longrightarrow> AList.delete k (AList.update k v al) = al"
  by (induction al) auto

text \<open>
  C4. For every position and candidate: from a selection map in which the position has no
  selection, the first toggle records the candidate for the position and the second toggle
  with the same candidate clears it again, which restores the selection map it started
  from.
\<close>

theorem toggle_twice_clears:
  "map_of (votes st) p = None \<Longrightarrow>
     map_of (votes (handleVoteChange p c st)) p = Some c \<and>
     map_of (votes (handleVoteChange p c (handleVoteChange p c st))) p = None \<and>
     handleVoteChange p c (handleVoteChange p c st) = st"
proof -
  assume none: "map_of (votes st) p = None"
  then have notin: "p \<notin> fst ` set (votes st)"
    by (simp add: map_of_eq_None_iff)
  have first: "map_of (votes (handleVoteChange p c st)) p = Some c"
    using none by (simp add: handleVoteChange_def update_conv')
  have second: "handleVoteChange p c (handleVoteChange p c st) = st"
    using none delete_update_fresh [OF notin, of c]
    by (simp add: handleVoteChange_def update_conv')
  show ?thesis
    using none first second by simp
qed

theorem toggle_twice_clears_witness:
  "map_of (votes initialVotingPage) ''president'' = None \<and>
   map_of (votes (handleVoteChange ''president'' ''alice'' initialVotingPage)) ''president''
     = Some ''alice'' \<and>
   map_of (votes (handleVoteChange ''president'' ''alice''
      (handleVoteChange ''president'' ''alice'' initialVotingPage))) ''president'' = None"
  using toggle_twice_clears [of initialVotingPage "''president''" "''alice''"]
  by (simp add: initialVotingPage_def)

section \<open>Properties of the API client\<close>

text \<open>
  At every 401 response the token and the user are removed from local storage; when the
  message names an invalid or expired token, the redirect to \<open>/login\<close> is set to run
  after 100 milliseconds and the call is rejected with the session-expired error.
\<close>

lemma interceptor_401_clears_session:
  "response_status err = Some 401 \<Longrightarrow>
     getItem (localStorage (snd (response_error_interceptor err b))) ''token'' = None \<and>
     getItem (localStorage (snd (response_error_interceptor err b))) ''user'' = None"
  by (simp add: response_error_interceptor_def perform_def storage_remove_def
      removeItem_def getItem_def Let_def emit_def)

lemma interceptor_401_token_message_redirects:
  assumes "response_status err = Some 401" and "response_error err = Some msg"
    and "str_includes msg ''Invalid token'' \<or> str_includes msg ''Token expired''"
  shows "effects (snd (response_error_interceptor err b)) =
           effects b @ [SetTimeout 100 (SetLocationHref ''/login'')] \<and>
         err_message (fst (response_error_interceptor err b)) =
           ''Your session has expired. Please log in again.''"
proof -
  from assms(3) have "msg \<noteq> []" by auto
  with assms show ?thesis
    by (auto simp: response_error_interceptor_def perform_def storage_remove_def
        emit_def or_else_def Let_def)
qed

text \<open>
  C1. The interceptor removes both session keys before it looks at the message. At a 401
  response that reports a deactivated account it passes the error on and schedules no
  redirect, as its comment says, but the stored user that the comment says is kept is
  already gone.
\<close>

theorem interceptor_removes_user_on_deactivation:
  "getItem (localStorage stored_session) ''user'' = Some inactive_officer_json \<and>
   response_status deactivated_401 = Some 401 \<and>
   str_includes (or_else (response_error deactivated_401) []) ''deactivated'' \<and>
   fst (response_error_interceptor deactivated_401 stored_session) = deactivated_401 \<and>
   getItem (localStorage (snd (response_error_interceptor deactivated_401 stored_session))) ''user''
     = None \<and>
   getItem (localStorage (snd (response_error_interceptor deactivated_401 stored_session))) ''token''
     = None \<and>
   effects (snd (response_error_interceptor deactivated_401 stored_session)) = []"
  by (simp add: stored_session_def deactivated_401_def response_error_interceptor_def
      response_status_def response_error_def or_else_def perform_def storage_remove_def
      removeItem_def getItem_def Let_def)

section \<open>Properties of the route guard\<close>

lemma clear_session_keys:
  "getItem (clear_session ls) ''token'' = None \<and> getItem (clear_session ls) ''user'' = None"
  by (simp add: clear_session_def removeItem_def getItem_def)

text \<open>
  C5 (as the code has it). Without a stored token or user the guard redirects to
  \<open>/login\<close>. With a stored session whose user is not marked inactive and whose role
  is one of the three roles but not the required one, it redirects to that role's own
  dashboard. With a stored user text that does not parse, it clears the token and the
  user and redirects to \<open>/login\<close>.
\<close>

theorem ProtectedRoute_redirects:
  "((\<not> truthy (getItem ls ''token'') \<or> \<not> truthy (getItem ls ''user'')) \<longrightarrow>
      ProtectedRoute JSON_parse requiredRole ls = (NavigateElement ''/login'', ls)) \<and>
   (truthy (getItem ls ''token'') \<and> getItem ls ''user'' = Some userStr \<and> userStr \<noteq> [] \<and>
    JSON_parse userStr = Some user \<and> get_prop user ''status'' = Some status \<and>
    status \<noteq> JStr ''INACTIVE'' \<and> get_prop user ''role'' = Some (JStr (role_name actual)) \<and>
    actual \<noteq> required \<longrightarrow>
      ProtectedRoute JSON_parse (Some required) ls =
        (NavigateElement (case actual of ADMIN \<Rightarrow> ''/admin/dashboard''
                          | OFFICER \<Rightarrow> ''/officer/dashboard''
                          | CANDIDATE \<Rightarrow> ''/candidate/dashboard''), ls)) \<and>
   (truthy (getItem ls ''token'') \<and> getItem ls ''user'' = Some userStr \<and> userStr \<noteq> [] \<and>
    JSON_parse userStr = None \<longrightarrow>
      ProtectedRoute JSON_parse requiredRole ls = (NavigateElement ''/login'', clear_session ls) \<and>
      getItem (clear_session ls) ''token'' = None \<and> getItem (clear_session ls) ''user'' = None)"
proof -
  have a: "(\<not> truthy (getItem ls ''token'') \<or> \<not> truthy (getItem ls ''user'')) \<longrightarrow>
      ProtectedRoute JSON_parse requiredRole ls = (NavigateElement ''/login'', ls)"
    by (auto simp: ProtectedRoute_def Let_def)
  have b: "truthy (getItem ls ''token'') \<and> getItem ls ''user'' = Some userStr \<and> userStr \<noteq> [] \<and>
    JSON_parse userStr = Some user \<and> get_prop user ''status'' = Some status \<and>
    status \<noteq> JStr ''INACTIVE'' \<and> get_prop user ''role'' = Some (JStr (role_name actual)) \<and>
    actual \<noteq> required \<longrightarrow>
      ProtectedRoute JSON_parse (Some required) ls =
        (NavigateElement (case actual of ADMIN \<Rightarrow> ''/admin/dashboard''
                          | OFFICER \<Rightarrow> ''/officer/dashboard''
                          | CANDIDATE \<Rightarrow> ''/candidate/dashboard''), ls)"
    by (cases actual; cases required)
       (auto simp: ProtectedRoute_def ProtectedRoute_try_def Let_def truthy_def)
  have c: "truthy (getItem ls ''token'') \<and> getItem ls ''user'' = Some userStr \<and> userStr \<noteq> [] \<and>
    JSON_parse userStr = None \<longrightarrow>
      ProtectedRoute JSON_parse requiredRole ls = (NavigateElement ''/login'', clear_session ls) \<and>
      getItem (clear_session ls) ''token'' = None \<and> getItem (clear_session ls) ''user'' = None"
    using clear_session_keys [of ls]
    by (auto simp: ProtectedRoute_def Let_def truthy_def)
  from a b c show ?thesis by blast
qed

lemmas route_eval =
  ProtectedRoute_def ProtectedRoute_try_def session_of_def example_JSON_parse_def
  getItem_def truthy_def Let_def clear_session_def removeItem_def
  inactive_admin_json_def inactive_candidate_json_def active_candidate_json_def
  truncated_json_def welcome_json_def

text \<open>No session; an active candidate on an administrator page; a text cut off.\<close>

theorem ProtectedRoute_redirects_witness:
  "ProtectedRoute example_JSON_parse (Some ADMIN) Map.empty
     = (NavigateElement ''/login'', Map.empty) \<and>
   ProtectedRoute example_JSON_parse (Some ADMIN) (session_of active_candidate_json)
     = (NavigateElement ''/candidate/dashboard'', session_of active_candidate_json) \<and>
   ProtectedRoute example_JSON_parse (Some ADMIN) (session_of truncated_json)
     = (NavigateElement ''/login'', clear_session (session_of truncated_json)) \<and>
   getItem (clear_session (session_of truncated_json)) ''user'' = None"
proof -
  have a: "ProtectedRoute example_JSON_parse (Some ADMIN) Map.empty
     = (NavigateElement ''/login'', Map.empty)"
    using ProtectedRoute_redirects [of Map.empty example_JSON_parse "Some ADMIN"]
    by (simp add: getItem_def truthy_def)
  have b: "ProtectedRoute example_JSON_parse (Some ADMIN) (session_of active_candidate_json)
     = (NavigateElement ''/candidate/dashboard'', session_of active_candidate_json)"
    using ProtectedRoute_redirects [of "session_of active_candidate_json" example_JSON_parse
        "Some ADMIN" active_candidate_json
        "JObj [(''id'', JStr ''u3''), (''name'', JStr ''Cy''),
               (''role'', JStr ''CANDIDATE''), (''status'', JStr ''ACTIVE'')]"
        "JStr ''ACTIVE''" CANDIDATE ADMIN]
    by (simp add: session_of_def example_JSON_parse_def getItem_def truthy_def
        inactive_admin_json_def inactive_candidate_json_def active_candidate_json_def)
  have c: "ProtectedRoute example_JSON_parse (Some ADMIN) (session_of truncated_json)
     = (NavigateElement ''/login'', clear_session (session_of truncated_json)) \<and>
   getItem (clear_session (session_of truncated_json)) ''user'' = None"
    using ProtectedRoute_redirects [of "session_of truncated_json" example_JSON_parse
        "Some ADMIN" truncated_json]
    by (simp add: session_of_def example_JSON_parse_def getItem_def truthy_def
        inactive_admin_json_def inactive_candidate_json_def active_candidate_json_def
        truncated_json_def welcome_json_def)
  from a b c show ?thesis by simp
qed

text \<open>
  An inactive candidate on an administrator page is not sent to the candidate dashboard:
  the status check comes first, clears the session and redirects to \<open>/login\<close>.
\<close>

theorem role_mismatch_counterexample:
  "truthy (getItem (session_of inactive_candidate_json) ''token'') \<and>
   truthy (getItem (session_of inactive_candidate_json) ''user'') \<and>
   Option.bind (example_JSON_parse inactive_candidate_json) (\<lambda>u. get_prop u ''role'')
     = Some (JStr ''CANDIDATE'') \<and>
   ProtectedRoute example_JSON_parse (Some ADMIN) (session_of inactive_candidate_json)
     = (NavigateElement ''/login'', Map.empty)"
  by (simp add: route_eval)

text \<open>
  C10. A stored session whose user has status \<open>INACTIVE\<close> and a role other than
  \<open>OFFICER\<close>: whatever role the page requires, the guard removes the token and the
  user from local storage and redirects to \<open>/login\<close>.
\<close>

theorem inactive_non_officer_cleared:
  assumes "truthy (getItem ls ''token'')"
    and "getItem ls ''user'' = Some userStr" and "userStr \<noteq> []"
    and "JSON_parse userStr = Some user"
    and "get_prop user ''status'' = Some (JStr ''INACTIVE'')"
    and "get_prop user ''role'' \<noteq> Some (JStr ''OFFICER'')"
  shows "ProtectedRoute JSON_parse requiredRole ls = (NavigateElement ''/login'', clear_session ls) \<and>
         getItem (clear_session ls) ''token'' = None \<and> getItem (clear_session ls) ''user'' = None"
proof -
  from assms(5) obtain r where r: "get_prop user ''role'' = Some r"
    by (cases user) auto
  with assms(6) have "r \<noteq> JStr ''OFFICER''" by simp
  with assms r have "ProtectedRoute JSON_parse requiredRole ls
      = (NavigateElement ''/login'', clear_session ls)"
    by (simp add: ProtectedRoute_def ProtectedRoute_try_def Let_def truthy_def)
  with clear_session_keys [of ls] show ?thesis by simp
qed

theorem inactive_non_officer_cleared_witness:
  "ProtectedRoute example_JSON_parse (Some ADMIN) (session_of inactive_admin_json)
     = (NavigateElement ''/login'', clear_session (session_of inactive_admin_json)) \<and>
   getItem (clear_session (session_of inactive_admin_json)) ''token'' = None \<and>
   getItem (clear_session (session_of inactive_admin_json)) ''user'' = None \<and>
   getItem (session_of inactive_admin_json) ''user'' = Some inactive_admin_json"
  using inactive_non_officer_cleared [of "session_of inactive_admin_json" inactive_admin_json
      example_JSON_parse
      "JObj [(''id'', JStr ''u1''), (''name'', JStr ''Ada''),
             (''role'', JStr ''ADMIN''), (''status'', JStr ''INACTIVE'')]" "Some ADMIN"]
  by (simp add: session_of_def example_JSON_parse_def getItem_def truthy_def
      inactive_admin_json_def)

section \<open>Properties of the login form and of the OTP requests\<close>

lemma ascii_trim_example: "trim ascii_strings ''  ab12/x '' = ''ab12/x''"
proof -
  have "ascii_trim ''  ab12/x '' = ''ab12/x''" by code_simp
  then show ?thesis by (simp add: ascii_strings_def)
qed

lemma ascii_toUpperCase_example: "toUpperCase ascii_strings ''ab12/x'' = ''AB12/X''"
proof -
  have "map upper_char ''ab12/x'' = ''AB12/X''" by code_simp
  then show ?thesis by (simp add: ascii_strings_def)
qed

lemma decimal_60: "decimal 60 = ''60''"
  by code_simp

lemma navigations_append: "navigations (xs @ ys) = navigations xs @ navigations ys"
  by (induction xs rule: navigations.induct) simp_all

text \<open>The interceptor sets a timer at most; it calls no router navigation.\<close>

lemma interceptor_navigations:
  "navigations (effects (snd (response_error_interceptor err b))) = navigations (effects b)"
  by (simp add: response_error_interceptor_def perform_def storage_remove_def emit_def
      Let_def navigations_append)

text \<open>
  C6 (as the code has it). A submission with a registration number and no email and
  password pair requests a one-time code for the trimmed, uppercased registration number,
  whatever the platform's \<open>trim\<close> and \<open>toUpperCase\<close> make of it. If the request
  succeeds, the form navigates to \<open>/login/otp\<close> with that normalized number in the
  navigation state. If the request is rejected, the form does not navigate and adds no
  effect of its own: what has happened in the browser is what the API client's interceptor
  did, which is at most its timed redirect to \<open>/login\<close>.
\<close>

theorem voter_branch_requests_otp:
  assumes "\<not> hasEmailPassword S data" and "hasRegNo S data" and "regNo data = Some r"
  shows "snd (onUnifiedLogin_begin S data (st, b))
           = Some (RequestOTP (toUpperCase S (trim S r))) \<and>
     (requestOTP (toUpperCase S (trim S r)) = OTPResolved \<longrightarrow>
        effects (snd (onUnifiedLogin S JSON_stringify now login requestOTP data (st, b))) =
          effects b @ [ToastSuccess ''OTP sent to your phone! Check your SMS.'',
                       Navigate ''/login/otp'' (RegNoState (toUpperCase S (trim S r)))]) \<and>
     (\<forall>err. requestOTP (toUpperCase S (trim S r)) = OTPRejected err \<longrightarrow>
        effects (snd (onUnifiedLogin S JSON_stringify now login requestOTP data (st, b))) =
          effects (snd (response_error_interceptor err b)) \<and>
        navigations (effects (snd (onUnifiedLogin S JSON_stringify now login requestOTP data
          (st, b)))) = navigations (effects b))"
proof -
  from assms(2,3) have norm: "or_else (regNo data) [] = r"
    by (auto simp: hasRegNo_def truthy_def or_else_def)
  have req: "onUnifiedLogin_begin S data (st, b) =
      ((st\<lparr>home_error := [], home_loading := True\<rparr>, b),
       Some (RequestOTP (toUpperCase S (trim S r))))"
    using assms(1,2) norm by (simp add: onUnifiedLogin_begin_def Let_def)
  have ok: "requestOTP (toUpperCase S (trim S r)) = OTPResolved \<longrightarrow>
        effects (snd (onUnifiedLogin S JSON_stringify now login requestOTP data (st, b))) =
          effects b @ [ToastSuccess ''OTP sent to your phone! Check your SMS.'',
                       Navigate ''/login/otp'' (RegNoState (toUpperCase S (trim S r)))]"
    using norm
    by (simp add: req onUnifiedLogin_def onUnifiedLogin_otp_settled_def perform_def emit_def)
  have rejected: "effects (snd (onUnifiedLogin S JSON_stringify now login requestOTP data (st, b)))
          = effects (snd (response_error_interceptor err b))"
    if "requestOTP (toUpperCase S (trim S r)) = OTPRejected err" for err
    using that
    by (simp add: req onUnifiedLogin_def onUnifiedLogin_otp_settled_def split: prod.splits)
  from req ok rejected interceptor_navigations show ?thesis by simp
qed

text \<open>
  A registration number in lower case with blanks around it, on a backend that accepts it.
\<close>

theorem voter_branch_requests_otp_witness:
  "snd (onUnifiedLogin_begin ascii_strings regNo_only blank_home) = Some (RequestOTP ''AB12/X'') \<and>
   effects (snd (onUnifiedLogin ascii_strings (\<lambda>v. []) 0 (\<lambda>e p. LoginRejected bare_429)
       (\<lambda>r. if r = ''AB12/X'' then OTPResolved else OTPRejected bare_429) regNo_only blank_home))
     = [ToastSuccess ''OTP sent to your phone! Check your SMS.'',
        Navigate ''/login/otp'' (RegNoState ''AB12/X'')]"
proof -
  have h: "\<not> hasEmailPassword ascii_strings regNo_only"
    by (simp add: hasEmailPassword_def regNo_only_def truthy_def)
  have g: "hasRegNo ascii_strings regNo_only"
    by (simp add: hasRegNo_def regNo_only_def truthy_def or_else_def ascii_trim_example)
  have r: "regNo regNo_only = Some ''  ab12/x ''"
    by (simp add: regNo_only_def)
  from voter_branch_requests_otp [OF h g r, where st = "fst blank_home" and b = "snd blank_home"
      and requestOTP = "\<lambda>r. if r = ''AB12/X'' then OTPResolved else OTPRejected bare_429"
      and JSON_stringify = "\<lambda>v. []" and now = 0 and login = "\<lambda>e p. LoginRejected bare_429"]
  show ?thesis
    by (simp add: ascii_trim_example ascii_toUpperCase_example blank_home_def)
qed

text \<open>
  The same submission when the backend answers 429: the request is made, no navigation
  follows, and the form shows the error.
\<close>

theorem voter_branch_counterexample:
  "\<not> hasEmailPassword ascii_strings regNo_only \<and> hasRegNo ascii_strings regNo_only \<and>
   snd (onUnifiedLogin_begin ascii_strings regNo_only blank_home) = Some (RequestOTP ''AB12/X'') \<and>
   effects (snd (onUnifiedLogin ascii_strings (\<lambda>v. []) 0 (\<lambda>e p. LoginRejected bare_429)
       (\<lambda>r. OTPRejected rate_limited_429) regNo_only blank_home)) = [] \<and>
   home_error (fst (onUnifiedLogin ascii_strings (\<lambda>v. []) 0 (\<lambda>e p. LoginRejected bare_429)
       (\<lambda>r. OTPRejected rate_limited_429) regNo_only blank_home))
     = ''Too many OTP requests. Try again in 45 seconds''"
  by (simp add: hasEmailPassword_def hasRegNo_def regNo_only_def truthy_def or_else_def
      onUnifiedLogin_def onUnifiedLogin_begin_def onUnifiedLogin_otp_settled_def Let_def
      blank_home_def ascii_trim_example ascii_toUpperCase_example rate_limited_429_def
      response_error_interceptor_def response_status_def rate_limit_message_def
      rate_limit_errorMessage_def rate_limit_errorHint_def response_error_def
      response_hint_def)

text \<open>
  C8 (as the code has it). At a 429 response the unified login form, the voter form of the
  login page and the resend action of the OTP page show one message: the server's \<open>error\<close>, a full stop and a space, and
  the server's \<open>hint\<close>, with \<open>Too many requests\<close> for a missing error and
  \<open>Please wait n seconds before trying again\<close> for a missing hint (\<open>n\<close> the
  server's \<open>retryAfter\<close>, or 60). The verification page shows the same two parts as two
  separate notifications.
\<close>

theorem rate_limit_message_displayed:
  assumes "response_status err = Some 429"
  shows "home_error (fst (onUnifiedLogin_otp_settled S data (OTPRejected err) (st, b))) =
           or_else (response_error err) ''Too many requests'' @ ''. '' @
           or_else (response_hint err)
             (''Please wait '' @
              decimal (case response_retryAfter err of None \<Rightarrow> 60
                       | Some n \<Rightarrow> if n = 0 then 60 else n) @
              '' seconds before trying again'') \<and>
         login_error (fst (onVoterLogin_settled S lr (OTPRejected err) (lst, lb))) =
           or_else (response_error err) ''Too many requests'' @ ''. '' @
           or_else (response_hint err)
             (''Please wait '' @
              decimal (case response_retryAfter err of None \<Rightarrow> 60
                       | Some n \<Rightarrow> if n = 0 then 60 else n) @
              '' seconds before trying again'') \<and>
         effects (snd (handleResendOTP_settled (OTPRejected err) (ost, ob))) =
           effects ob @
           [ToastError
             (or_else (response_error err) ''Too many requests'' @ ''. '' @
              or_else (response_hint err)
                (''Please wait '' @
                 decimal (case response_retryAfter err of None \<Rightarrow> 60
                          | Some n \<Rightarrow> if n = 0 then 60 else n) @
                 '' seconds before trying again''))] \<and>
         effects (snd (onRequestOTP_settled r (OTPRejected err) (vst, vb))) =
           effects vb @
           [ToastError (or_else (response_error err) ''Too many requests''),
            ToastError
              (or_else (response_hint err)
                (''Please wait '' @
                 decimal (case response_retryAfter err of None \<Rightarrow> 60
                          | Some n \<Rightarrow> if n = 0 then 60 else n) @
                 '' seconds before trying again''))]"
proof -
  have ne: "rate_limit_errorHint err \<noteq> []"
    by (simp add: rate_limit_errorHint_def or_else_def split: option.splits)
  show ?thesis
    using assms ne
    by (simp add: onUnifiedLogin_otp_settled_def onVoterLogin_settled_def
        handleResendOTP_settled_def onRequestOTP_settled_def rate_limit_message_def rate_limit_errorMessage_def
        rate_limit_errorHint_def perform_def emit_def)
qed

theorem rate_limit_message_displayed_witness:
  "home_error (fst (onUnifiedLogin_otp_settled ascii_strings regNo_only
      (OTPRejected rate_limited_429) blank_home))
     = ''Too many OTP requests. Try again in 45 seconds'' \<and>
   home_error (fst (onUnifiedLogin_otp_settled ascii_strings regNo_only
      (OTPRejected bare_429) blank_home))
     = ''Too many requests. Please wait 60 seconds before trying again'' \<and>
   effects (snd (handleResendOTP_settled (OTPRejected rate_limited_429)
       (\<lparr>otp_regNo = ''AB12/X'', otp_loading = False\<rparr>, snd blank_home)))
     = [ToastError ''Too many OTP requests. Try again in 45 seconds'']"
proof -
  have s1: "response_status rate_limited_429 = Some 429"
    by (simp add: rate_limited_429_def response_status_def)
  have s2: "response_status bare_429 = Some 429"
    by (simp add: bare_429_def response_status_def)
  from rate_limit_message_displayed [OF s1, where S = ascii_strings and data = regNo_only
      and st = "fst blank_home"
      and b = "snd blank_home" and ost = "\<lparr>otp_regNo = ''AB12/X'', otp_loading = False\<rparr>"
      and ob = "snd blank_home"]
    rate_limit_message_displayed [OF s2, where S = ascii_strings and data = regNo_only
      and st = "fst blank_home" and b = "snd blank_home"]
  show ?thesis
    by (simp add: rate_limited_429_def bare_429_def response_error_def response_hint_def
        response_retryAfter_def or_else_def blank_home_def decimal_60)
qed

text \<open>
  On the verification page a 429 response to the first request gives two notifications,
  the error and the hint, and a 429 response to a resend gives the error alone.
\<close>

theorem verification_page_429_counterexample:
  "response_status rate_limited_429 = Some 429 \<and>
   response_error rate_limited_429 = Some ''Too many OTP requests'' \<and>
   response_hint rate_limited_429 = Some ''Try again in 45 seconds'' \<and>
   effects (snd (onRequestOTP_settled ''AB12/X'' (OTPRejected rate_limited_429)
       (\<lparr>ver_step = RequestStep, ver_regNo = [], ver_loading = True, ver_otpSent = False\<rparr>,
        snd blank_home)))
     = [ToastError ''Too many OTP requests'', ToastError ''Try again in 45 seconds''] \<and>
   effects (snd (verification_resend_settled (OTPRejected rate_limited_429)
       (\<lparr>ver_step = VerifyStep, ver_regNo = ''AB12/X'', ver_loading = False, ver_otpSent = True\<rparr>,
        snd blank_home)))
     = [ToastError ''Too many OTP requests'']"
  by (simp add: rate_limited_429_def response_status_def response_error_def response_hint_def
      onRequestOTP_settled_def verification_resend_settled_def rate_limit_errorMessage_def
      rate_limit_errorHint_def or_else_def perform_def emit_def blank_home_def)

section \<open>Properties of the welcome banner\<close>

text \<open>The message that the login form stores is never empty.\<close>

lemma welcome_text_nonempty: "welcome_text u \<noteq> []"
  by (simp add: welcome_text_def Let_def)




section \<open>Properties of the static file server\<close>

text \<open>
  C9 (as the code has it). A request that \<open>express.static\<close> passes on gets a 404 JSON
  error when its path starts with \<open>/api\<close> and the entry document otherwise. A request
  for which it sends a file gets that file, with \<open>must-revalidate\<close> for an HTML file
  and the one-year immutable policy for a JS or CSS file. A request that it redirects gets
  its 301 redirect, not the entry document.
\<close>

theorem server_responses:
  "(static_file req = PassesOn \<and> prefix ''/api'' (req_path req) \<longrightarrow>
      handle_request static_file req = Json 404 [(''error'', ''API route not found'')]) \<and>
   (static_file req = PassesOn \<and> \<not> prefix ''/api'' (req_path req) \<longrightarrow>
      handle_request static_file req = SendFile ''dist/index.html'') \<and>
   (\<forall>f. static_file req = SendsFile f \<longrightarrow>
      (\<exists>hs. handle_request static_file req = StaticFile f hs \<and>
         (suffix ''.html'' f \<longrightarrow>
            map_of hs ''Cache-Control'' = Some ''public, max-age=0, must-revalidate'') \<and>
         (suffix ''.js'' f \<or> suffix ''.css'' f \<longrightarrow>
            map_of hs ''Cache-Control'' = Some ''public, max-age=31536000, immutable''))) \<and>
   (\<forall>location. static_file req = Redirects location \<longrightarrow>
      handle_request static_file req = Redirect 301 location)"
proof -
  have html: "suffix ''.html'' f \<Longrightarrow> \<not> suffix ''.js'' f \<and> \<not> suffix ''.css'' f" for f
    by (auto simp: suffix_def)
  show ?thesis
    using html
    by (auto simp: handle_request_def spa_fallback_def setHeaders_def setHeader_def Let_def
        update_conv')
qed

text \<open>
  An API path, a page of the application, the entry document, the script and the
  \<open>assets\<close> directory, on the build as the bundler writes it.
\<close>

theorem server_responses_witness:
  "handle_request dist_files \<lparr>req_method = ''GET'', req_path = ''/api/positions''\<rparr>
     = Json 404 [(''error'', ''API route not found'')] \<and>
   handle_request dist_files \<lparr>req_method = ''GET'', req_path = ''/admin/dashboard''\<rparr>
     = SendFile ''dist/index.html'' \<and>
   handle_request dist_files \<lparr>req_method = ''GET'', req_path = ''/index.html''\<rparr>
     = StaticFile ''dist/index.html'' [(''Cache-Control'', ''public, max-age=0, must-revalidate'')] \<and>
   handle_request dist_files \<lparr>req_method = ''GET'', req_path = ''/assets/index-4f2a.js''\<rparr>
     = StaticFile ''dist/assets/index-4f2a.js''
         [(''Cache-Control'', ''public, max-age=31536000, immutable'')] \<and>
   handle_request dist_files \<lparr>req_method = ''GET'', req_path = ''/assets''\<rparr>
     = Redirect 301 ''/assets/''"
proof -
  have a: "handle_request dist_files \<lparr>req_method = ''GET'', req_path = ''/api/positions''\<rparr>
     = Json 404 [(''error'', ''API route not found'')]"
    using server_responses [of dist_files "\<lparr>req_method = ''GET'', req_path = ''/api/positions''\<rparr>"]
    by (simp add: dist_files_def)
  have b: "handle_request dist_files \<lparr>req_method = ''GET'', req_path = ''/admin/dashboard''\<rparr>
     = SendFile ''dist/index.html''"
    using server_responses [of dist_files "\<lparr>req_method = ''GET'', req_path = ''/admin/dashboard''\<rparr>"]
    by (simp add: dist_files_def)
  have c: "handle_request dist_files \<lparr>req_method = ''GET'', req_path = ''/index.html''\<rparr>
     = StaticFile ''dist/index.html'' [(''Cache-Control'', ''public, max-age=0, must-revalidate'')]"
    by (simp add: handle_request_def dist_files_def setHeaders_def setHeader_def suffix_def)
  have d: "handle_request dist_files \<lparr>req_method = ''GET'', req_path = ''/assets/index-4f2a.js''\<rparr>
     = StaticFile ''dist/assets/index-4f2a.js''
         [(''Cache-Control'', ''public, max-age=31536000, immutable'')]"
    by (simp add: handle_request_def dist_files_def setHeaders_def setHeader_def suffix_def)
  have e: "handle_request dist_files \<lparr>req_method = ''GET'', req_path = ''/assets''\<rparr>
     = Redirect 301 ''/assets/''"
    using server_responses [of dist_files "\<lparr>req_method = ''GET'', req_path = ''/assets''\<rparr>"]
    by (simp add: dist_files_def)
  from a b c d e show ?thesis by simp
qed

text \<open>
  The \<open>assets\<close> directory of the build, requested without a trailing slash: the path
  does not start with \<open>/api\<close> and no file is sent for it, yet the answer is the static
  middleware's redirect, not the entry document.
\<close>

theorem directory_redirect_counterexample:
  "\<not> prefix ''/api'' (req_path \<lparr>req_method = ''GET'', req_path = ''/assets''\<rparr>) \<and>
   dist_files \<lparr>req_method = ''GET'', req_path = ''/assets''\<rparr> = Redirects ''/assets/'' \<and>
   handle_request dist_files \<lparr>req_method = ''GET'', req_path = ''/assets''\<rparr>
     = Redirect 301 ''/assets/'' \<and>
   handle_request dist_files \<lparr>req_method = ''GET'', req_path = ''/assets''\<rparr>
     \<noteq> SendFile ''dist/index.html''"
  by (simp add: handle_request_def dist_files_def)

text \<open>
  The static middleware comes before the check of the API prefix as well: on a build that
  has a file whose name starts with \<open>api\<close>, that file is sent.
\<close>

lemma api_named_file_is_sent:
  "prefix ''/api'' (req_path \<lparr>req_method = ''GET'', req_path = ''/api-guide.html''\<rparr>) \<and>
   handle_request dist_with_api_guide \<lparr>req_method = ''GET'', req_path = ''/api-guide.html''\<rparr>
     = StaticFile ''dist/api-guide.html''
         [(''Cache-Control'', ''public, max-age=0, must-revalidate'')]"
  by (simp add: handle_request_def dist_with_api_guide_def setHeaders_def setHeader_def
      suffix_def)

end
